theory Spec2Isabelle
  imports Main "HOL-Library.Word"
begin

unbundle bit_operations_syntax

section \<open>Table function execution context\<close>

text \<open>
  A shallow embedding of \<^verbatim>\<open>QueryEngine/TableFunctions/TableFunctionExecutionContext.cpp\<close>:
  the literal packer \<^verbatim>\<open>create_literal_buffer\<close>, the output sizing
  \<^verbatim>\<open>get_output_row_count\<close>, the input marshaling loop of \<^verbatim>\<open>execute\<close> and the two
  launchers \<^verbatim>\<open>launchCpuCode\<close> and \<^verbatim>\<open>launchGpuCode\<close>.
\<close>

subsection \<open>Machine types\<close>

type_synonym byte = "8 word"
type_synonym size_t = "64 word"
type_synonym ssize_t = "64 word" \<comment> \<open>compared with the signed order \<open><s\<close>\<close>
type_synonym int64_t = "64 word" \<comment> \<open>compared with the signed order \<open><s\<close>\<close>
type_synonym int32_t = "32 word"

datatype ExecutorDeviceType = CPU | GPU

text \<open>
  Pointers are opaque: a chunk buffer handed out by the column fetcher, a host literal slot
  (its index in \<^verbatim>\<open>literals_owner\<close>), or a block of the device allocator (its index).
\<close>

datatype ptr = nullptr | ChunkPtr nat | LiteralPtr nat | DevicePtr nat

text \<open>
  Every way the source stops an invocation. The \<^verbatim>\<open>CHECK\<close> macros and \<^verbatim>\<open>UNREACHABLE()\<close>
  abort fatally, the others are \<^verbatim>\<open>std::runtime_error\<close>s. The names of the user-facing errors
  follow the error taxonomy of the specification.
\<close>

datatype checked =
    CompilationContext  \<comment> \<open>\<^verbatim>\<open>CHECK(compilation_context)\<close>\<close>
  | LiteralSize         \<comment> \<open>\<^verbatim>\<open>CHECK_LE(sizeof(T), sizeof(int64_t))\<close>\<close>
  | GpuAllocator        \<comment> \<open>\<^verbatim>\<open>CHECK(gpu_allocator)\<close>\<close>
  | ByteStreamPtr       \<comment> \<open>\<^verbatim>\<open>CHECK(byte_stream_ptr)\<close>\<close>
  | GroupByBuffersPtr   \<comment> \<open>\<^verbatim>\<open>CHECK(group_by_buffers_ptr)\<close>\<close>
  | GpuContext          \<comment> \<open>\<^verbatim>\<open>CHECK(gpu_context)\<close>\<close>

datatype error =
    CheckFailed checked
  | Unreachable                          \<comment> \<open>\<^verbatim>\<open>UNREACHABLE()\<close>\<close>
  | InconsistentInputCardinality         \<comment> \<open>\<^verbatim>\<open>CHECK_EQ(static_cast<ssize_t>(buf_elem_count), element_count)\<close>\<close>
  | BufferCountMismatch                  \<comment> \<open>\<^verbatim>\<open>CHECK_EQ(col_buf_ptrs.size(), exe_unit.input_exprs.size())\<close>\<close>
  | NoColumnInputs                       \<comment> \<open>\<^verbatim>\<open>CHECK_GE(element_count, ssize_t(0))\<close>\<close>
  | UnsupportedLiteralType               \<comment> \<open>"Literal value ... is not yet supported."\<close>
  | UnsupportedOutputPolicy              \<comment> \<open>"Only row multiplier output buffer configuration is supported ..."\<close>
  | TableFunctionExecutionError int32_t  \<comment> \<open>"Error executing table function: " + err\<close>
  | OutputCardinalityNotSet              \<comment> \<open>"Table function did not properly set output row count."\<close>
  | KernelLaunchError                    \<comment> \<open>\<^verbatim>\<open>checkCudaErrors(cuLaunchKernel(...))\<close>\<close>

subsection \<open>Bytes of a scalar\<close>

text \<open>
  The object representation of a \<open>w\<close>-bit scalar on the (little-endian) host and device:
  \<open>w div 8\<close> bytes, least significant first. A \<^verbatim>\<open>float\<close> or \<^verbatim>\<open>double\<close> is its bit pattern.
\<close>

definition sizeof :: "'a::len word \<Rightarrow> nat" where
  "sizeof w = LENGTH('a) div 8"

definition object_bytes :: "'a::len word \<Rightarrow> byte list" where
  "object_bytes w = map (\<lambda>i. ucast (drop_bit (8 * i) w)) [0..<LENGTH('a) div 8]"

fun word_of_bytes :: "byte list \<Rightarrow> 'a::len word" where
  "word_of_bytes [] = 0"
| "word_of_bytes (b # bs) = ucast b OR push_bit 8 (word_of_bytes bs)"

text \<open>\<^verbatim>\<open>std::memcpy(dst, src, n)\<close> on the contents of two buffers.\<close>

definition memcpy :: "byte list \<Rightarrow> byte list \<Rightarrow> nat \<Rightarrow> byte list" where
  "memcpy dst src n = take n src @ drop n dst"

subsection \<open>Device allocator\<close>

text \<open>
  \<^verbatim>\<open>CudaAllocator\<close>: the blocks handed out so far. Device memory is not cleared by
  \<^verbatim>\<open>alloc\<close>; \<open>dev_uninit\<close> is what a fresh block holds, byte by byte.
\<close>

record CudaAllocator =
  dev_blocks :: "byte list list"
  dev_uninit :: "nat \<Rightarrow> byte"

definition alloc :: "CudaAllocator \<Rightarrow> nat \<Rightarrow> ptr \<times> CudaAllocator" where
  "alloc a n =
     (DevicePtr (length (dev_blocks a)),
      a\<lparr>dev_blocks := dev_blocks a @ [map (dev_uninit a) [0..<n]]\<rparr>)"

definition copyToDevice :: "CudaAllocator \<Rightarrow> ptr \<Rightarrow> byte list \<Rightarrow> nat \<Rightarrow> CudaAllocator" where
  "copyToDevice a dst src n =
     (case dst of
        DevicePtr i \<Rightarrow> a\<lparr>dev_blocks := (dev_blocks a)[i := memcpy (dev_blocks a ! i) src n]\<rparr>
      | _ \<Rightarrow> a)"

subsection \<open>Literal packer\<close>

text \<open>
  \<^verbatim>\<open>create_literal_buffer<T>\<close>. On the CPU a fresh 8-byte array is appended to
  \<^verbatim>\<open>literals_owner\<close> (\<^verbatim>\<open>std::make_unique<char[]>(8)\<close> value-initialises it, so it starts as
  zeros) and \<^verbatim>\<open>sizeof(T)\<close> bytes of the literal are copied to its start. On the GPU an 8-byte
  device block is allocated and \<^verbatim>\<open>sizeof(T)\<close> bytes are copied to its start. The result is
  the pointer, with the updated owner and allocator.
\<close>

definition create_literal_buffer ::
  "'a::len word \<Rightarrow> ExecutorDeviceType \<Rightarrow> byte list list \<Rightarrow> CudaAllocator option
     \<Rightarrow> error + (ptr \<times> byte list list \<times> CudaAllocator option)" where
  "create_literal_buffer literal device_type literals_owner gpu_allocator =
     (if \<not> sizeof literal \<le> 8 then Inl (CheckFailed LiteralSize)
      else case device_type of
        CPU \<Rightarrow>
          Inr (LiteralPtr (length literals_owner),
               literals_owner @ [memcpy (replicate 8 0) (object_bytes literal) (sizeof literal)],
               gpu_allocator)
      | GPU \<Rightarrow>
          (case gpu_allocator of
             None \<Rightarrow> Inl (CheckFailed GpuAllocator)
           | Some a \<Rightarrow>
               (case alloc a 8 of
                  (gpu_literal_buf_ptr, a') \<Rightarrow>
                    Inr (gpu_literal_buf_ptr, literals_owner,
                         Some (copyToDevice a' gpu_literal_buf_ptr
                                 (object_bytes literal) (sizeof literal))))))"

text \<open>The 8-byte slot a marshaled literal pointer refers to.\<close>

definition slot_of :: "ptr \<Rightarrow> byte list list \<Rightarrow> CudaAllocator option \<Rightarrow> byte list" where
  "slot_of p literals_owner gpu_allocator =
     (case p of
        LiteralPtr i \<Rightarrow> literals_owner ! i
      | DevicePtr i \<Rightarrow> (case gpu_allocator of Some a \<Rightarrow> dev_blocks a ! i | None \<Rightarrow> [])
      | _ \<Rightarrow> [])"

subsection \<open>Execution unit\<close>

text \<open>
  Modelled from the spec: the type of \<^verbatim>\<open>output_buffer_multiplier\<close> is declared outside the
  sources; the specification calls it an optional row multiplier. The source multiplies the
  multiplier with a \<^verbatim>\<open>size_t\<close> and stores the product in a \<^verbatim>\<open>size_t\<close>, so for every integer
  multiplier type the product is taken in 64-bit unsigned arithmetic; the multiplier is a
  \<^verbatim>\<open>size_t\<close> here.

  An optional value is a payload and a flag that says whether a value is present.
  \<^verbatim>\<open>operator*\<close>, the only access the source makes, does not look at the flag: it yields the
  payload, which for an absent value is whatever its storage holds.
\<close>

record optional_size_t =
  has_value :: bool
  payload :: size_t

definition deref :: "optional_size_t \<Rightarrow> size_t" where
  "deref opt = payload opt"

text \<open>
  Modelled from the spec: \<^verbatim>\<open>SQLTypeInfo\<close>, \<^verbatim>\<open>get_bit_width\<close> and \<^verbatim>\<open>Datum\<close> are declared outside
  the sources. A type info answers \<^verbatim>\<open>is_fp()\<close>, \<^verbatim>\<open>is_integer()\<close> and \<^verbatim>\<open>get_bit_width(ti)\<close>; a
  datum is read through the member that the dispatch selects.
\<close>

record SQLTypeInfo =
  is_fp :: bool
  is_integer :: bool
  get_bit_width :: nat

record Datum =
  tinyintval :: "8 word"
  smallintval :: "16 word"
  intval :: "32 word"
  bigintval :: "64 word"
  floatval :: "32 word"
  doubleval :: "64 word"

text \<open>
  An input expression is tested with \<^verbatim>\<open>dynamic_cast\<close> for \<^verbatim>\<open>Analyzer::ColumnVar\<close> first and
  \<^verbatim>\<open>Analyzer::Constant\<close> second; every other expression is \<open>OtherExpr\<close>.
\<close>

datatype Expr = ColumnVar nat | Constant SQLTypeInfo Datum | OtherExpr

text \<open>
  Modelled from the spec: the declaration of \<^verbatim>\<open>TableFunctionExecutionUnit\<close> is not among the
  sources. The specification gives it ordered input expressions, ordered output target
  expressions and the optional row multiplier; the source reads these three members.
\<close>

record TableFunctionExecutionUnit =
  input_exprs :: "Expr list"
  target_exprs :: "Expr list"
  output_buffer_multiplier :: optional_size_t

subsection \<open>Output sizing\<close>

definition get_output_row_count :: "TableFunctionExecutionUnit \<Rightarrow> size_t \<Rightarrow> error + size_t" where
  "get_output_row_count exe_unit input_element_count =
     (if deref (output_buffer_multiplier exe_unit) \<noteq> 0
      then Inr (deref (output_buffer_multiplier exe_unit) * input_element_count)
      else Inl UnsupportedOutputPolicy)"

subsection \<open>Collaborators\<close>

text \<open>
  What the executor provides: the column fetcher (\<^verbatim>\<open>ColumnFetcher::getOneColumnFragment\<close>, a
  buffer pointer and an element count for a column at a memory level), the content of fresh
  device memory, and the group-by buffers pointer of the \<^verbatim>\<open>QueryMemoryInitializer\<close> built for
  a device and an allocated row count.
\<close>

record Executor =
  getOneColumnFragment :: "nat \<Rightarrow> ExecutorDeviceType \<Rightarrow> ptr \<times> size_t"
  device_memory :: "nat \<Rightarrow> byte"
  getGroupByBuffersPtr :: "ExecutorDeviceType \<Rightarrow> size_t \<Rightarrow> ptr"

text \<open>
  The compiled table function. On the CPU it is called with the input buffers, the element
  count and the output row count (initialised by the caller); it returns its error code and
  the output row count it leaves behind. On the GPU the kernel is launched with the same
  inputs; the launch returns the driver's result code (0 is success) and the value left in
  the device's output row count slot.
\<close>

record TableFunctionCompilationContext =
  getFuncPtr :: "ptr list \<Rightarrow> int64_t \<Rightarrow> int64_t \<Rightarrow> int32_t \<times> int64_t"
  getGpuCode :: "(ptr list \<Rightarrow> size_t \<Rightarrow> int64_t \<Rightarrow> nat \<times> int64_t) option"

subsection \<open>Input marshaling\<close>

text \<open>
  The locals that the loop of \<^verbatim>\<open>execute\<close> updates: \<^verbatim>\<open>col_buf_ptrs\<close>, \<^verbatim>\<open>element_count\<close>,
  \<^verbatim>\<open>literals_owner\<close> and \<^verbatim>\<open>device_allocator\<close>.
\<close>

record marshal_state =
  m_col_buf_ptrs :: "ptr list"
  m_element_count :: ssize_t
  m_literals_owner :: "byte list list"
  m_device_allocator :: "CudaAllocator option"

definition push_literal ::
  "'a::len word \<Rightarrow> ExecutorDeviceType \<Rightarrow> marshal_state \<Rightarrow> error + marshal_state" where
  "push_literal literal device_type st =
     (case create_literal_buffer literal device_type (m_literals_owner st) (m_device_allocator st) of
        Inl e \<Rightarrow> Inl e
      | Inr (p, owner, a) \<Rightarrow>
          Inr (st\<lparr>m_col_buf_ptrs := m_col_buf_ptrs st @ [p],
                  m_literals_owner := owner, m_device_allocator := a\<rparr>))"

text \<open>One iteration of the loop over \<^verbatim>\<open>exe_unit.input_exprs\<close>.\<close>

fun marshal_input ::
  "Executor \<Rightarrow> ExecutorDeviceType \<Rightarrow> Expr \<Rightarrow> marshal_state \<Rightarrow> error + marshal_state" where
  "marshal_input executor device_type (ColumnVar col_var) st =
     (case getOneColumnFragment executor col_var device_type of
        (col_buf, buf_elem_count) \<Rightarrow>
          if m_element_count st <s 0
          then Inr (st\<lparr>m_col_buf_ptrs := m_col_buf_ptrs st @ [col_buf],
                       m_element_count := buf_elem_count\<rparr>)
          else if buf_elem_count \<noteq> m_element_count st then Inl InconsistentInputCardinality
          else Inr (st\<lparr>m_col_buf_ptrs := m_col_buf_ptrs st @ [col_buf]\<rparr>))"
| "marshal_input executor device_type (Constant ti const_val_datum) st =
     (if is_fp ti then
        (if get_bit_width ti = 32 then push_literal (floatval const_val_datum) device_type st
         else if get_bit_width ti = 64 then push_literal (doubleval const_val_datum) device_type st
         else Inl Unreachable)
      else if is_integer ti then
        (if get_bit_width ti = 8 then push_literal (tinyintval const_val_datum) device_type st
         else if get_bit_width ti = 16 then push_literal (smallintval const_val_datum) device_type st
         else if get_bit_width ti = 32 then push_literal (intval const_val_datum) device_type st
         else if get_bit_width ti = 64 then push_literal (bigintval const_val_datum) device_type st
         else Inl Unreachable)
      else Inl UnsupportedLiteralType)"
| "marshal_input executor device_type OtherExpr st = Inr st"

fun marshal_inputs ::
  "Executor \<Rightarrow> ExecutorDeviceType \<Rightarrow> Expr list \<Rightarrow> marshal_state \<Rightarrow> error + marshal_state" where
  "marshal_inputs executor device_type [] st = Inr st"
| "marshal_inputs executor device_type (input_expr # rest) st =
     (case marshal_input executor device_type input_expr st of
        Inl e \<Rightarrow> Inl e
      | Inr st' \<Rightarrow> marshal_inputs executor device_type rest st')"

text \<open>The state before the loop: no buffers, \<^verbatim>\<open>element_count = -1\<close>, a device allocator on the GPU only.\<close>

definition initial_state :: "Executor \<Rightarrow> ExecutorDeviceType \<Rightarrow> marshal_state" where
  "initial_state executor device_type =
     \<lparr>m_col_buf_ptrs = [], m_element_count = - 1, m_literals_owner = [],
      m_device_allocator =
        (if device_type = GPU
         then Some \<lparr>dev_blocks = [], dev_uninit = device_memory executor\<rparr>
         else None)\<rparr>"

subsection \<open>Launchers\<close>

text \<open>
  The launchers are followed through a log of what they allocate and launch, so that
  "before any allocation" and "before any launch" are statements about the log.
\<close>

datatype event =
    DeviceAlloc nat                              \<comment> \<open>\<^verbatim>\<open>gpu_allocator->alloc(bytes)\<close> in the launcher\<close>
  | OutputStorageAlloc ExecutorDeviceType size_t \<comment> \<open>\<^verbatim>\<open>QueryMemoryInitializer\<close> with the allocated row count\<close>
  | FuncCall                                     \<comment> \<open>call of the compiled CPU function\<close>
  | KernelLaunch                                 \<comment> \<open>\<^verbatim>\<open>cuLaunchKernel\<close>\<close>
  | CopyGroupByBuffersFromGpu size_t

text \<open>
  The result set of the \<^verbatim>\<open>QueryMemoryInitializer\<close>: the entry count of its storage (set by
  \<^verbatim>\<open>updateStorageEntryCount\<close>), the row count its storage was allocated with, and the column
  slots of the memory descriptor (8 bytes, padded to 8, for every target expression).
\<close>

record ResultSet =
  storage_entry_count :: size_t
  allocated_row_count :: size_t
  col_slot_info :: "(nat \<times> nat) list"

definition launchCpuCode ::
  "Executor \<Rightarrow> TableFunctionExecutionUnit \<Rightarrow> TableFunctionCompilationContext \<Rightarrow> ptr list
     \<Rightarrow> size_t \<Rightarrow> event list \<times> (error + ResultSet)" where
  "launchCpuCode executor exe_unit compilation_context col_buf_ptrs elem_count =
     (if col_buf_ptrs = [] then ([], Inl (CheckFailed ByteStreamPtr))
      else case get_output_row_count exe_unit elem_count of
        Inl e \<Rightarrow> ([], Inl e)
      | Inr allocated_output_row_count \<Rightarrow>
          if getGroupByBuffersPtr executor CPU allocated_output_row_count = nullptr
          then ([OutputStorageAlloc CPU allocated_output_row_count],
                Inl (CheckFailed GroupByBuffersPtr))
          else
            (case getFuncPtr compilation_context col_buf_ptrs elem_count (- 1) of
               (err, output_row_count) \<Rightarrow>
                 ([OutputStorageAlloc CPU allocated_output_row_count, FuncCall],
                  if err \<noteq> 0 then Inl (TableFunctionExecutionError err)
                  else if output_row_count <s 0 then Inl OutputCardinalityNotSet
                  else Inr \<lparr>storage_entry_count = output_row_count,
                            allocated_row_count = allocated_output_row_count,
                            col_slot_info = replicate (length (target_exprs exe_unit)) (8, 8)\<rparr>)))"

text \<open>
  \<open>have_cuda\<close> is the build flag \<^verbatim>\<open>HAVE_CUDA\<close>. The launcher's own allocator serves the input
  pointer array, the input row count and the error slot before the output is sized.
\<close>

definition launchGpuCode ::
  "bool \<Rightarrow> Executor \<Rightarrow> TableFunctionExecutionUnit \<Rightarrow> TableFunctionCompilationContext
     \<Rightarrow> ptr list \<Rightarrow> size_t \<Rightarrow> event list \<times> (error + ResultSet)" where
  "launchGpuCode have_cuda executor exe_unit compilation_context col_buf_ptrs elem_count =
     (if \<not> have_cuda then ([], Inl Unreachable)
      else
        let inputs_log = [DeviceAlloc (length col_buf_ptrs * 8), DeviceAlloc 8, DeviceAlloc 4]
        in case get_output_row_count exe_unit elem_count of
          Inl e \<Rightarrow> (inputs_log, Inl e)
        | Inr allocated_output_row_count \<Rightarrow>
            let output_log =
                  inputs_log @ [OutputStorageAlloc GPU allocated_output_row_count, DeviceAlloc 8]
            in if getGroupByBuffersPtr executor GPU allocated_output_row_count = nullptr
               then (output_log, Inl (CheckFailed GroupByBuffersPtr))
               else
                 (case getGpuCode compilation_context of
                    None \<Rightarrow> (output_log, Inl (CheckFailed GpuContext))
                  | Some cu_func \<Rightarrow>
                      (case cu_func col_buf_ptrs elem_count (- 1) of
                         (cu_result, device_output_row_count) \<Rightarrow>
                           if cu_result \<noteq> 0
                           then (output_log @ [KernelLaunch], Inl KernelLaunchError)
                           else
                             let new_output_row_count =
                                   (if device_output_row_count <s 0
                                    then allocated_output_row_count
                                    else device_output_row_count)
                             in (output_log @ [KernelLaunch,
                                               CopyGroupByBuffersFromGpu new_output_row_count],
                                 Inr \<lparr>storage_entry_count = new_output_row_count,
                                      allocated_row_count = allocated_output_row_count,
                                      col_slot_info =
                                        replicate (length (target_exprs exe_unit)) (8, 8)\<rparr>))))"

subsection \<open>The invocation\<close>

definition execute ::
  "bool \<Rightarrow> Executor \<Rightarrow> TableFunctionExecutionUnit \<Rightarrow> TableFunctionCompilationContext option
     \<Rightarrow> ExecutorDeviceType \<Rightarrow> event list \<times> (error + ResultSet)" where
  "execute have_cuda executor exe_unit compilation_context device_type =
     (case compilation_context of
        None \<Rightarrow> ([], Inl (CheckFailed CompilationContext))
      | Some ctx \<Rightarrow>
          (case marshal_inputs executor device_type (input_exprs exe_unit)
                  (initial_state executor device_type) of
             Inl e \<Rightarrow> ([], Inl e)
           | Inr st \<Rightarrow>
               if length (m_col_buf_ptrs st) \<noteq> length (input_exprs exe_unit)
               then ([], Inl BufferCountMismatch)
               else if m_element_count st <s 0 then ([], Inl NoColumnInputs)
               else (case device_type of
                       CPU \<Rightarrow> launchCpuCode executor exe_unit ctx (m_col_buf_ptrs st)
                                (m_element_count st)
                     | GPU \<Rightarrow> launchGpuCode have_cuda executor exe_unit ctx (m_col_buf_ptrs st)
                                (m_element_count st))))"

text \<open>The row counts with which output storage was allocated, in order.\<close>

fun allocated_rows :: "event list \<Rightarrow> size_t list" where
  "allocated_rows [] = []"
| "allocated_rows (OutputStorageAlloc d n # evs) = n # allocated_rows evs"
| "allocated_rows (_ # evs) = allocated_rows evs"

text \<open>The value the kernel leaves in the output row count slot (0 without a kernel).\<close>

definition device_row_count ::
  "TableFunctionCompilationContext \<Rightarrow> ptr list \<Rightarrow> size_t \<Rightarrow> int64_t" where
  "device_row_count ctx col_buf_ptrs n =
     (case getGpuCode ctx of None \<Rightarrow> 0 | Some cu_func \<Rightarrow> snd (cu_func col_buf_ptrs n (- 1)))"

subsection \<open>Sample inputs\<close>

text \<open>
  Concrete inputs at which the properties below are evaluated: an execution unit with given
  input expressions and multiplier, an executor whose column 0 has four elements and whose
  other columns have three, and a compiled function that reports a given output row count.
\<close>

definition unit_with :: "Expr list \<Rightarrow> bool \<Rightarrow> size_t \<Rightarrow> TableFunctionExecutionUnit" where
  "unit_with inputs present m =
     \<lparr>input_exprs = inputs, target_exprs = [OtherExpr],
      output_buffer_multiplier = \<lparr>has_value = present, payload = m\<rparr>\<rparr>"

definition demo_executor :: Executor where
  "demo_executor =
     \<lparr>getOneColumnFragment =
        (\<lambda>col_var device_type. (ChunkPtr col_var, if col_var = 0 then 4 else 3)),
      device_memory = (\<lambda>i. 170),
      getGroupByBuffersPtr = (\<lambda>device_type n. ChunkPtr 100)\<rparr>"

definition reporting :: "int64_t \<Rightarrow> TableFunctionCompilationContext" where
  "reporting r =
     \<lparr>getFuncPtr = (\<lambda>bufs n out. (0, r)),
      getGpuCode = Some (\<lambda>bufs n out. (0, r))\<rparr>"

definition text_literal :: Expr where
  "text_literal =
     Constant \<lparr>is_fp = False, is_integer = False, get_bit_width = 32\<rparr>
       \<lparr>tinyintval = 0, smallintval = 0, intval = 0, bigintval = 0, floatval = 0, doubleval = 0\<rparr>"

definition int_literal :: "32 word \<Rightarrow> Expr" where
  "int_literal v =
     Constant \<lparr>is_fp = False, is_integer = True, get_bit_width = 32\<rparr>
       \<lparr>tinyintval = 0, smallintval = 0, intval = v, bigintval = 0, floatval = 0, doubleval = 0\<rparr>"

text \<open>The constants that the dispatch of the marshaling loop packs.\<close>

definition supported_literal :: "SQLTypeInfo \<Rightarrow> bool" where
  "supported_literal ti \<longleftrightarrow>
     (if is_fp ti then get_bit_width ti \<in> {32, 64}
      else is_integer ti \<and> get_bit_width ti \<in> {8, 16, 32, 64})"

section \<open>Properties\<close>

subsection \<open>Bytes\<close>

lemma bit_word_of_bytes:
  "bit (word_of_bytes bs :: 'a::len word) n \<longleftrightarrow>
     n < LENGTH('a) \<and> n div 8 < length bs \<and> bit (bs ! (n div 8)) (n mod 8)"
proof (induction bs arbitrary: n)
  case Nil
  then show ?case by simp
next
  case (Cons b bs)
  show ?case
  proof (cases "n < 8")
    case True
    then show ?thesis
      by (auto simp: bit_or_iff bit_push_bit_iff bit_ucast_iff dest: bit_imp_le_length)
  next
    case False
    then have "n div 8 = Suc ((n - 8) div 8)" "n mod 8 = (n - 8) mod 8"
      by (simp_all add: le_div_geq le_mod_geq)
    with False show ?thesis
      by (auto simp: bit_or_iff bit_push_bit_iff bit_ucast_iff Cons.IH dest: bit_imp_le_length)
  qed
qed

lemma word_of_bytes_object_bytes:
  fixes w :: "'a::len word"
  assumes "8 dvd LENGTH('a)"
  shows "word_of_bytes (object_bytes w) = w"
proof (rule bit_word_eqI)
  fix n assume n: "n < LENGTH('a)"
  from assms n have d: "n div 8 < LENGTH('a) div 8"
    by (auto simp: dvd_def)
  have "8 * (n div 8) + n mod 8 = n" by simp
  with n d show "bit (word_of_bytes (object_bytes w) :: 'a word) n = bit w n"
    by (simp add: bit_word_of_bytes object_bytes_def bit_ucast_iff bit_drop_bit_eq)
qed

lemma length_object_bytes: "length (object_bytes w) = sizeof w"
  by (simp add: object_bytes_def sizeof_def)

subsection \<open>Output sizing\<close>

lemma get_output_row_count_nonzero:
  "payload (output_buffer_multiplier exe_unit) \<noteq> 0 \<Longrightarrow>
     get_output_row_count exe_unit n = Inr (payload (output_buffer_multiplier exe_unit) * n)"
  by (simp add: get_output_row_count_def deref_def)

lemma get_output_row_count_zero:
  "payload (output_buffer_multiplier exe_unit) = 0 \<Longrightarrow>
     get_output_row_count exe_unit n = Inl UnsupportedOutputPolicy"
  by (simp add: get_output_row_count_def deref_def)

text \<open>
  Claim C1, as amended. For a row multiplier that is present and not zero, the allocated
  output row count is the product of the multiplier and the input element count taken in
  64-bit unsigned arithmetic, that is, the exact product modulo \<open>2 ^ 64\<close>; it is the exact
  product whenever that is below \<open>2 ^ 64\<close>. Both launchers allocate output storage once,
  with this row count.
\<close>

theorem C1_allocated_row_count:
  assumes "has_value (output_buffer_multiplier exe_unit)"
      and "payload (output_buffer_multiplier exe_unit) \<noteq> 0"
  shows "get_output_row_count exe_unit n = Inr (payload (output_buffer_multiplier exe_unit) * n)
       \<and> unat (payload (output_buffer_multiplier exe_unit) * n)
           = (unat (payload (output_buffer_multiplier exe_unit)) * unat n) mod 2 ^ 64
       \<and> (unat (payload (output_buffer_multiplier exe_unit)) * unat n < 2 ^ 64 \<longrightarrow>
            unat (payload (output_buffer_multiplier exe_unit) * n)
              = unat (payload (output_buffer_multiplier exe_unit)) * unat n)
       \<and> (col_buf_ptrs \<noteq> [] \<longrightarrow>
            allocated_rows (fst (launchCpuCode executor exe_unit ctx col_buf_ptrs n))
              = [payload (output_buffer_multiplier exe_unit) * n])
       \<and> allocated_rows (fst (launchGpuCode True executor exe_unit ctx col_buf_ptrs n))
              = [payload (output_buffer_multiplier exe_unit) * n]"
proof -
  let ?m = "payload (output_buffer_multiplier exe_unit)"
  have g: "get_output_row_count exe_unit n = Inr (?m * n)"
    using assms(2) by (rule get_output_row_count_nonzero)
  have w: "unat (?m * n) = (unat ?m * unat n) mod 2 ^ 64"
    by (simp add: unat_word_ariths)
  have e: "unat ?m * unat n < 2 ^ 64 \<longrightarrow> unat (?m * n) = unat ?m * unat n"
    using w by simp
  have c: "col_buf_ptrs \<noteq> [] \<longrightarrow>
      allocated_rows (fst (launchCpuCode executor exe_unit ctx col_buf_ptrs n)) = [?m * n]"
    by (simp add: launchCpuCode_def g split: prod.split)
  have d: "allocated_rows (fst (launchGpuCode True executor exe_unit ctx col_buf_ptrs n)) = [?m * n]"
    by (simp add: launchGpuCode_def g Let_def split: prod.split option.split)
  from g w e c d show ?thesis by blast
qed

text \<open>Multiplier 2 on four input rows: 8 rows on both paths.\<close>

theorem C1_allocated_row_count_witness:
  "get_output_row_count (unit_with [ColumnVar 0] True 2) 4 = Inr 8
   \<and> allocated_rows (fst (launchCpuCode demo_executor (unit_with [ColumnVar 0] True 2)
        (reporting 4) [ChunkPtr 0] 4)) = [8]
   \<and> allocated_rows (fst (launchGpuCode True demo_executor (unit_with [ColumnVar 0] True 2)
        (reporting 4) [ChunkPtr 0] 4)) = [8]"
  using C1_allocated_row_count [where exe_unit = "unit_with [ColumnVar 0] True 2" and n = 4
          and col_buf_ptrs = "[ChunkPtr 0]" and executor = demo_executor and ctx = "reporting 4"]
  by (simp add: unit_with_def)

text \<open>
  Claim C1 as stated fails: a multiplier of \<open>2 ^ 62\<close> on four input rows allocates zero rows,
  not \<open>2 ^ 64\<close>, and a multiplier that is present and zero allocates nothing because the
  sizing raises an error.
\<close>

theorem C1_counterexample:
  "get_output_row_count (unit_with [ColumnVar 0] True 4611686018427387904) 4 = Inr 0
   \<and> unat (4611686018427387904 :: size_t) * unat (4 :: size_t) = 18446744073709551616
   \<and> unat (0 :: size_t) \<noteq> 18446744073709551616
   \<and> get_output_row_count (unit_with [ColumnVar 0] True 0) 4 = Inl UnsupportedOutputPolicy"
  by (simp add: get_output_row_count_def deref_def unit_with_def)

text \<open>
  Claim C5 does not hold of the code. The guard of \<^verbatim>\<open>get_output_row_count\<close> reads the
  multiplier through \<^verbatim>\<open>operator*\<close> and never asks whether it is present. With an absent
  multiplier whose storage reads as 1, the sizing returns a row count, output storage is
  allocated and the invocation returns a result.
\<close>

theorem C5_absent_multiplier_not_rejected:
  "get_output_row_count (unit_with [ColumnVar 0] False 1) 4 = Inr 4
   \<and> execute False demo_executor (unit_with [ColumnVar 0] False 1) (Some (reporting 4)) CPU
       = ([OutputStorageAlloc CPU 4, FuncCall],
          Inr \<lparr>storage_entry_count = 4, allocated_row_count = 4, col_slot_info = [(8, 8)]\<rparr>)"
  by (simp add: execute_def launchCpuCode_def get_output_row_count_def deref_def unit_with_def
      initial_state_def demo_executor_def reporting_def word_sless_alt)

subsection \<open>The literal packer\<close>

lemma create_literal_buffer_cpu:
  fixes literal :: "'a::len word"
  assumes "LENGTH('a) \<le> 64"
  shows "create_literal_buffer literal CPU literals_owner gpu_allocator
       = Inr (LiteralPtr (length literals_owner),
              literals_owner @ [object_bytes literal @ replicate (8 - sizeof literal) 0],
              gpu_allocator)"
proof -
  from assms have "sizeof literal \<le> 8" by (simp add: sizeof_def)
  then show ?thesis
    by (simp add: create_literal_buffer_def memcpy_def length_object_bytes)
qed

lemma create_literal_buffer_gpu:
  fixes literal :: "'a::len word"
  assumes "LENGTH('a) \<le> 64"
  shows "create_literal_buffer literal GPU literals_owner (Some a)
       = Inr (DevicePtr (length (dev_blocks a)), literals_owner,
              Some (a\<lparr>dev_blocks := dev_blocks a @
                      [object_bytes literal @ map (dev_uninit a) [sizeof literal..<8]]\<rparr>))"
proof -
  from assms have s: "sizeof literal \<le> 8" by (simp add: sizeof_def)
  have "drop (sizeof literal) (map (dev_uninit a) [0..<8]) = map (dev_uninit a) [sizeof literal..<8]"
    by (simp add: drop_map)
  with s show ?thesis
    by (simp add: create_literal_buffer_def alloc_def copyToDevice_def memcpy_def
        length_object_bytes del: upt_Suc)
qed

text \<open>
  Claim C3. For a literal of 8, 16, 32 or 64 bits (an integer, or the bit pattern of a
  \<^verbatim>\<open>float\<close> or \<^verbatim>\<open>double\<close>) the packer succeeds on both devices, the slot has 8 bytes, its first
  \<^verbatim>\<open>sizeof(T)\<close> bytes are the bytes of the literal and read back as the literal, and the
  remaining bytes are what the fresh slot held: the literal is not extended.
\<close>

theorem C3_literal_roundtrip:
  fixes literal :: "'a::len word"
  assumes "LENGTH('a) \<in> {8, 16, 32, 64}"
  shows "(case create_literal_buffer literal CPU literals_owner gpu_allocator of
            Inl e \<Rightarrow> False
          | Inr (p, owner, a) \<Rightarrow>
              length (slot_of p owner a) = 8
              \<and> take (sizeof literal) (slot_of p owner a) = object_bytes literal
              \<and> word_of_bytes (take (sizeof literal) (slot_of p owner a)) = literal
              \<and> drop (sizeof literal) (slot_of p owner a) = replicate (8 - sizeof literal) 0)
       \<and> (case create_literal_buffer literal GPU literals_owner (Some dev) of
            Inl e \<Rightarrow> False
          | Inr (p, owner, a) \<Rightarrow>
              length (slot_of p owner a) = 8
              \<and> take (sizeof literal) (slot_of p owner a) = object_bytes literal
              \<and> word_of_bytes (take (sizeof literal) (slot_of p owner a)) = literal
              \<and> drop (sizeof literal) (slot_of p owner a)
                  = map (dev_uninit dev) [sizeof literal..<8])"
proof -
  from assms have le: "LENGTH('a) \<le> 64" and dvd: "8 dvd LENGTH('a)"
    by auto
  from le have s: "sizeof literal \<le> 8" by (simp add: sizeof_def)
  have rt: "word_of_bytes (object_bytes literal) = literal"
    using dvd by (rule word_of_bytes_object_bytes)
  show ?thesis
    using s rt
    by (simp add: create_literal_buffer_cpu [OF le] create_literal_buffer_gpu [OF le]
        slot_of_def length_object_bytes)
qed

text \<open>
  The 16-bit literal \<open>- 2\<close>: bytes \<open>254, 255\<close>, followed by zeros on the CPU (not by the sign)
  and by the previous content of the block on the GPU.
\<close>

theorem C3_literal_roundtrip_witness:
  "(case create_literal_buffer (- 2 :: 16 word) CPU [] None of
      Inl e \<Rightarrow> False
    | Inr (p, owner, a) \<Rightarrow>
        slot_of p owner a = [254, 255, 0, 0, 0, 0, 0, 0]
        \<and> word_of_bytes (take 2 (slot_of p owner a)) = (- 2 :: 16 word))
   \<and> (case create_literal_buffer (- 2 :: 16 word) GPU []
             (Some \<lparr>dev_blocks = [], dev_uninit = (\<lambda>i. 170)\<rparr>) of
      Inl e \<Rightarrow> False
    | Inr (p, owner, a) \<Rightarrow>
        slot_of p owner a = [254, 255, 170, 170, 170, 170, 170, 170]
        \<and> word_of_bytes (take 2 (slot_of p owner a)) = (- 2 :: 16 word))"
proof -
  have h: "LENGTH(16) \<in> {8, 16, 32, 64 :: nat}" by simp
  have r: "replicate 6 (0 :: byte) = [0, 0, 0, 0, 0, 0]"
    by (simp add: numeral_eq_Suc)
  have cpu: "create_literal_buffer (- 2 :: 16 word) CPU [] None
      = Inr (LiteralPtr 0, [[254, 255, 0, 0, 0, 0, 0, 0]], None)"
    by (simp add: create_literal_buffer_def sizeof_def object_bytes_def memcpy_def upt_rec r)
  have gpu: "create_literal_buffer (- 2 :: 16 word) GPU []
             (Some \<lparr>dev_blocks = [], dev_uninit = (\<lambda>i. 170)\<rparr>)
      = Inr (DevicePtr 0, [],
             Some \<lparr>dev_blocks = [[254, 255, 170, 170, 170, 170, 170, 170]], dev_uninit = (\<lambda>i. 170)\<rparr>)"
    by (simp add: create_literal_buffer_def sizeof_def object_bytes_def memcpy_def upt_rec
        alloc_def copyToDevice_def)
  show ?thesis
    using C3_literal_roundtrip [OF h, where literal = "- 2" and literals_owner = "[]"
        and gpu_allocator = None and dev = "\<lparr>dev_blocks = [], dev_uninit = (\<lambda>i. 170)\<rparr>"]
    by (simp add: cpu gpu slot_of_def sizeof_def object_bytes_def upt_rec)
qed

subsection \<open>Launchers\<close>

lemma launchCpuCode_called:
  assumes "col_buf_ptrs \<noteq> []"
      and "get_output_row_count exe_unit n = Inr allocated"
      and "getGroupByBuffersPtr executor CPU allocated \<noteq> nullptr"
      and "getFuncPtr ctx col_buf_ptrs n (- 1) = (err, r)"
  shows "launchCpuCode executor exe_unit ctx col_buf_ptrs n =
           ([OutputStorageAlloc CPU allocated, FuncCall],
            if err \<noteq> 0 then Inl (TableFunctionExecutionError err)
            else if r <s 0 then Inl OutputCardinalityNotSet
            else Inr \<lparr>storage_entry_count = r, allocated_row_count = allocated,
                      col_slot_info = replicate (length (target_exprs exe_unit)) (8, 8)\<rparr>)"
  using assms by (simp add: launchCpuCode_def)

lemma launchGpuCode_launched:
  assumes "get_output_row_count exe_unit n = Inr allocated"
      and "getGroupByBuffersPtr executor GPU allocated \<noteq> nullptr"
      and "getGpuCode ctx = Some cu_func"
      and "cu_func col_buf_ptrs n (- 1) = (0, v)"
  shows "launchGpuCode True executor exe_unit ctx col_buf_ptrs n =
           ([DeviceAlloc (length col_buf_ptrs * 8), DeviceAlloc 8, DeviceAlloc 4,
             OutputStorageAlloc GPU allocated, DeviceAlloc 8, KernelLaunch,
             CopyGroupByBuffersFromGpu (if v <s 0 then allocated else v)],
            Inr \<lparr>storage_entry_count = (if v <s 0 then allocated else v),
                 allocated_row_count = allocated,
                 col_slot_info = replicate (length (target_exprs exe_unit)) (8, 8)\<rparr>)"
  using assms by (simp add: launchGpuCode_def Let_def)

lemma launchCpuCode_result:
  assumes "launchCpuCode executor exe_unit ctx col_buf_ptrs n = (evs, Inr rs)"
  shows "get_output_row_count exe_unit n = Inr (allocated_row_count rs)
       \<and> evs = [OutputStorageAlloc CPU (allocated_row_count rs), FuncCall]
       \<and> getFuncPtr ctx col_buf_ptrs n (- 1) = (0, storage_entry_count rs)
       \<and> \<not> storage_entry_count rs <s 0"
  using assms
  by (auto simp: launchCpuCode_def split: if_splits sum.splits prod.splits)

lemma launchGpuCode_result:
  assumes a: "launchGpuCode have_cuda executor exe_unit ctx col_buf_ptrs n = (evs, Inr rs)"
  shows "allocated_rows evs = [allocated_row_count rs]
       \<and> storage_entry_count rs =
           (if device_row_count ctx col_buf_ptrs n <s 0 then allocated_row_count rs
            else device_row_count ctx col_buf_ptrs n)"
proof -
  from a have hc: have_cuda
    by (cases have_cuda) (simp_all add: launchGpuCode_def)
  from a hc obtain allocated where g: "get_output_row_count exe_unit n = Inr allocated"
    by (cases "get_output_row_count exe_unit n") (simp_all add: launchGpuCode_def)
  from a hc g have p: "getGroupByBuffersPtr executor GPU allocated \<noteq> nullptr"
    by (cases "getGroupByBuffersPtr executor GPU allocated = nullptr")
       (simp_all add: launchGpuCode_def)
  from a hc g p obtain cu_func where c: "getGpuCode ctx = Some cu_func"
    by (cases "getGpuCode ctx") (simp_all add: launchGpuCode_def)
  obtain cu_result v where k: "cu_func col_buf_ptrs n (- 1) = (cu_result, v)"
    by (cases "cu_func col_buf_ptrs n (- 1)")
  from a hc g p c k have z: "cu_result = 0"
    by (cases "cu_result = 0") (simp_all add: launchGpuCode_def)
  from k z have k0: "cu_func col_buf_ptrs n (- 1) = (0, v)" by simp
  from c k0 have d: "device_row_count ctx col_buf_ptrs n = v"
    by (simp add: device_row_count_def)
  from a hc have "launchGpuCode True executor exe_unit ctx col_buf_ptrs n = (evs, Inr rs)"
    by simp
  then have "evs = [DeviceAlloc (length col_buf_ptrs * 8), DeviceAlloc 8, DeviceAlloc 4,
             OutputStorageAlloc GPU allocated, DeviceAlloc 8, KernelLaunch,
             CopyGroupByBuffersFromGpu (if v <s 0 then allocated else v)]"
    and "rs = \<lparr>storage_entry_count = (if v <s 0 then allocated else v),
                 allocated_row_count = allocated,
                 col_slot_info = replicate (length (target_exprs exe_unit)) (8, 8)\<rparr>"
    by (simp_all only: launchGpuCode_launched [OF g p c k0] prod.inject sum.inject)
  with d show ?thesis by simp
qed

text \<open>
  Claim C2, as amended. A result returned by the CPU launcher carries the row count that the
  compiled function reported; a result returned by the GPU launcher carries the value read
  back from the device, or the allocated row count when that value is negative. Neither is
  clamped: the row count is at most the allocated row count whenever the reported count is
  (and always on the GPU fallback). In both cases output storage was allocated once,
  with the allocated row count of the result.
\<close>

theorem C2_row_count_is_reported:
  "(launchCpuCode executor exe_unit ctx col_buf_ptrs n = (evs, Inr rs) \<longrightarrow>
      allocated_rows evs = [allocated_row_count rs]
      \<and> storage_entry_count rs = snd (getFuncPtr ctx col_buf_ptrs n (- 1))
      \<and> (snd (getFuncPtr ctx col_buf_ptrs n (- 1)) \<le> allocated_row_count rs \<longrightarrow>
           storage_entry_count rs \<le> allocated_row_count rs))
   \<and> (launchGpuCode have_cuda executor exe_unit ctx col_buf_ptrs n = (evs', Inr rs') \<longrightarrow>
      allocated_rows evs' = [allocated_row_count rs']
      \<and> storage_entry_count rs' =
           (if device_row_count ctx col_buf_ptrs n <s 0 then allocated_row_count rs'
            else device_row_count ctx col_buf_ptrs n)
      \<and> (device_row_count ctx col_buf_ptrs n <s 0
           \<or> device_row_count ctx col_buf_ptrs n \<le> allocated_row_count rs' \<longrightarrow>
           storage_entry_count rs' \<le> allocated_row_count rs'))"
proof (intro conjI impI)
  assume a: "launchCpuCode executor exe_unit ctx col_buf_ptrs n = (evs, Inr rs)"
  from launchCpuCode_result [OF a]
  show "allocated_rows evs = [allocated_row_count rs]"
    and e: "storage_entry_count rs = snd (getFuncPtr ctx col_buf_ptrs n (- 1))"
    by simp_all
  assume "snd (getFuncPtr ctx col_buf_ptrs n (- 1)) \<le> allocated_row_count rs"
  with e show "storage_entry_count rs \<le> allocated_row_count rs" by simp
next
  assume a: "launchGpuCode have_cuda executor exe_unit ctx col_buf_ptrs n = (evs', Inr rs')"
  from launchGpuCode_result [OF a]
  show "allocated_rows evs' = [allocated_row_count rs']"
    and e: "storage_entry_count rs' =
           (if device_row_count ctx col_buf_ptrs n <s 0 then allocated_row_count rs'
            else device_row_count ctx col_buf_ptrs n)"
    by simp_all
  assume "device_row_count ctx col_buf_ptrs n <s 0
           \<or> device_row_count ctx col_buf_ptrs n \<le> allocated_row_count rs'"
  with e show "storage_entry_count rs' \<le> allocated_row_count rs'" by auto
qed

text \<open>Both launchers on four input rows, multiplier 2, and a function that reports four rows.\<close>

theorem C2_row_count_is_reported_witness:
  "launchCpuCode demo_executor (unit_with [ColumnVar 0] True 2) (reporting 4) [ChunkPtr 0] 4
     = ([OutputStorageAlloc CPU 8, FuncCall],
        Inr \<lparr>storage_entry_count = 4, allocated_row_count = 8, col_slot_info = [(8, 8)]\<rparr>)
   \<and> launchGpuCode True demo_executor (unit_with [ColumnVar 0] True 2) (reporting 4)
        [ChunkPtr 0] 4
     = ([DeviceAlloc 8, DeviceAlloc 8, DeviceAlloc 4, OutputStorageAlloc GPU 8, DeviceAlloc 8,
         KernelLaunch, CopyGroupByBuffersFromGpu 4],
        Inr \<lparr>storage_entry_count = 4, allocated_row_count = 8, col_slot_info = [(8, 8)]\<rparr>)
   \<and> (4 :: size_t) \<le> 8"
proof -
  have c: "launchCpuCode demo_executor (unit_with [ColumnVar 0] True 2) (reporting 4)
        [ChunkPtr 0] 4
     = ([OutputStorageAlloc CPU 8, FuncCall],
        Inr \<lparr>storage_entry_count = 4, allocated_row_count = 8, col_slot_info = [(8, 8)]\<rparr>)"
    by (simp add: launchCpuCode_def get_output_row_count_def deref_def unit_with_def
        demo_executor_def reporting_def word_sless_alt)
  have g: "launchGpuCode True demo_executor (unit_with [ColumnVar 0] True 2) (reporting 4)
        [ChunkPtr 0] 4
     = ([DeviceAlloc 8, DeviceAlloc 8, DeviceAlloc 4, OutputStorageAlloc GPU 8, DeviceAlloc 8,
         KernelLaunch, CopyGroupByBuffersFromGpu 4],
        Inr \<lparr>storage_entry_count = 4, allocated_row_count = 8, col_slot_info = [(8, 8)]\<rparr>)"
    by (simp add: launchGpuCode_def get_output_row_count_def deref_def unit_with_def
        demo_executor_def reporting_def word_sless_alt Let_def)
  have d: "device_row_count (reporting 4) [ChunkPtr 0] 4 = 4"
    by (simp add: device_row_count_def reporting_def)
  have f: "snd (getFuncPtr (reporting 4) [ChunkPtr 0] 4 (- 1)) = 4"
    by (simp add: reporting_def)
  from C2_row_count_is_reported [where executor = demo_executor
      and exe_unit = "unit_with [ColumnVar 0] True 2" and ctx = "reporting 4"
      and col_buf_ptrs = "[ChunkPtr 0]" and n = 4 and have_cuda = True
      and evs = "[OutputStorageAlloc CPU 8, FuncCall]"
      and rs = "\<lparr>storage_entry_count = 4, allocated_row_count = 8, col_slot_info = [(8, 8)]\<rparr>"
      and evs' = "[DeviceAlloc 8, DeviceAlloc 8, DeviceAlloc 4, OutputStorageAlloc GPU 8,
         DeviceAlloc 8, KernelLaunch, CopyGroupByBuffersFromGpu 4]"
      and rs' = "\<lparr>storage_entry_count = 4, allocated_row_count = 8, col_slot_info = [(8, 8)]\<rparr>"]
  have "(4 :: size_t) \<le> 8"
    by (simp add: c g d f)
  with c g show ?thesis by simp
qed

text \<open>
  Claim C2 as stated fails: with multiplier 2 on four input rows, 8 rows are allocated, and a
  compiled function that reports 9 rows makes the invocation return a result of 9 rows.
\<close>

theorem C2_counterexample:
  "execute False demo_executor (unit_with [ColumnVar 0] True 2) (Some (reporting 9)) CPU
     = ([OutputStorageAlloc CPU 8, FuncCall],
        Inr \<lparr>storage_entry_count = 9, allocated_row_count = 8, col_slot_info = [(8, 8)]\<rparr>)
   \<and> \<not> (9 :: size_t) \<le> 8"
  by (simp add: execute_def launchCpuCode_def get_output_row_count_def deref_def unit_with_def
      initial_state_def demo_executor_def reporting_def word_sless_alt)

text \<open>
  Claim C6. On the GPU path, once the output is sized and the kernel has been launched
  successfully, a negative value read back from the output row count slot makes the
  invocation return a result whose row count is the allocated row count.
\<close>

theorem C6_gpu_fallback:
  assumes "get_output_row_count exe_unit n = Inr allocated"
      and "getGroupByBuffersPtr executor GPU allocated \<noteq> nullptr"
      and "getGpuCode ctx = Some cu_func"
      and "cu_func col_buf_ptrs n (- 1) = (0, v)"
      and "v <s 0"
  shows "snd (launchGpuCode True executor exe_unit ctx col_buf_ptrs n)
           = Inr \<lparr>storage_entry_count = allocated, allocated_row_count = allocated,
                  col_slot_info = replicate (length (target_exprs exe_unit)) (8, 8)\<rparr>"
  using assms(5) by (simp add: launchGpuCode_launched [OF assms(1-4)])

text \<open>A kernel that leaves the slot at \<open>- 1\<close>: the result has the 8 allocated rows.\<close>

theorem C6_gpu_fallback_witness:
  "get_output_row_count (unit_with [ColumnVar 0] True 2) 4 = Inr 8
   \<and> (- 1 :: int64_t) <s 0
   \<and> snd (launchGpuCode True demo_executor (unit_with [ColumnVar 0] True 2) (reporting (- 1))
        [ChunkPtr 0] 4)
       = Inr \<lparr>storage_entry_count = 8, allocated_row_count = 8, col_slot_info = [(8, 8)]\<rparr>"
proof -
  have a: "get_output_row_count (unit_with [ColumnVar 0] True 2) 4 = Inr 8"
    by (simp add: get_output_row_count_def deref_def unit_with_def)
  have b: "getGroupByBuffersPtr demo_executor GPU 8 \<noteq> nullptr"
    by (simp add: demo_executor_def)
  have c: "getGpuCode (reporting (- 1)) = Some (\<lambda>bufs n out. (0, - 1))"
    by (simp add: reporting_def)
  have d: "(\<lambda>bufs n out. (0 :: nat, - 1 :: int64_t)) [ChunkPtr 0] (4 :: size_t) (- 1 :: int64_t) = (0, - 1)"
    by simp
  have e: "(- 1 :: int64_t) <s 0"
    by (simp add: word_sless_alt)
  from C6_gpu_fallback [OF a b c d e] a e show ?thesis
    by (simp add: unit_with_def)
qed

text \<open>
  Claim C7. On the CPU path, when the compiled function has been called and returns 0, a
  negative output row count fails with \<open>OutputCardinalityNotSet\<close>, and a non-negative one
  becomes the row count of the result, whatever the allocated row count is.
\<close>

theorem C7_cpu_row_count:
  assumes "col_buf_ptrs \<noteq> []"
      and "get_output_row_count exe_unit n = Inr allocated"
      and "getGroupByBuffersPtr executor CPU allocated \<noteq> nullptr"
      and "getFuncPtr ctx col_buf_ptrs n (- 1) = (0, r)"
  shows "(r <s 0 \<longrightarrow>
            snd (launchCpuCode executor exe_unit ctx col_buf_ptrs n) = Inl OutputCardinalityNotSet)
       \<and> (\<not> r <s 0 \<longrightarrow>
            snd (launchCpuCode executor exe_unit ctx col_buf_ptrs n)
              = Inr \<lparr>storage_entry_count = r, allocated_row_count = allocated,
                     col_slot_info = replicate (length (target_exprs exe_unit)) (8, 8)\<rparr>)"
  by (simp add: launchCpuCode_called [OF assms])

text \<open>
  Four input rows and multiplier 2: a function that leaves the count at \<open>- 1\<close> fails, one
  that reports 4 returns a result of 4 rows in storage allocated for 8.
\<close>

theorem C7_cpu_row_count_witness:
  "snd (launchCpuCode demo_executor (unit_with [ColumnVar 0] True 2) (reporting (- 1))
        [ChunkPtr 0] 4) = Inl OutputCardinalityNotSet
   \<and> snd (launchCpuCode demo_executor (unit_with [ColumnVar 0] True 2) (reporting 4)
        [ChunkPtr 0] 4)
       = Inr \<lparr>storage_entry_count = 4, allocated_row_count = 8, col_slot_info = [(8, 8)]\<rparr>"
proof -
  have a: "[ChunkPtr 0] \<noteq> []" by simp
  have b: "get_output_row_count (unit_with [ColumnVar 0] True 2) 4 = Inr 8"
    by (simp add: get_output_row_count_def deref_def unit_with_def)
  have c: "getGroupByBuffersPtr demo_executor CPU 8 \<noteq> nullptr"
    by (simp add: demo_executor_def)
  have d: "getFuncPtr (reporting r) [ChunkPtr 0] 4 (- 1) = (0, r)" for r
    by (simp add: reporting_def)
  have e: "(- 1 :: int64_t) <s 0" "\<not> (4 :: int64_t) <s 0"
    by (simp_all add: word_sless_alt)
  from C7_cpu_row_count [OF a b c d [of "- 1"]] C7_cpu_row_count [OF a b c d [of 4]] e
  show ?thesis
    by (simp add: unit_with_def)
qed

subsection \<open>Input marshaling\<close>

lemma marshal_inputs_append:
  "marshal_inputs executor device_type (xs @ ys) st =
     (case marshal_inputs executor device_type xs st of
        Inl e \<Rightarrow> Inl e
      | Inr st' \<Rightarrow> marshal_inputs executor device_type ys st')"
  by (induction xs arbitrary: st) (auto split: sum.splits)

lemma push_literal_Inr:
  assumes "push_literal literal device_type st = Inr st'"
  shows "m_element_count st' = m_element_count st
       \<and> length (m_col_buf_ptrs st') = Suc (length (m_col_buf_ptrs st))
       \<and> (m_device_allocator st \<noteq> None \<longrightarrow> m_device_allocator st' \<noteq> None)"
  using assms
  by (auto simp: push_literal_def create_literal_buffer_def alloc_def
      split: sum.splits if_splits ExecutorDeviceType.splits option.splits prod.splits)

lemma push_literal_succeeds:
  fixes literal :: "'a::len word"
  assumes "LENGTH('a) \<le> 64" and "device_type = GPU \<longrightarrow> m_device_allocator st \<noteq> None"
  shows "\<exists>st'. push_literal literal device_type st = Inr st'"
proof (cases device_type)
  case CPU
  then show ?thesis
    by (simp add: push_literal_def create_literal_buffer_cpu [OF assms(1)])
next
  case GPU
  with assms(2) obtain a where "m_device_allocator st = Some a" by auto
  with GPU show ?thesis
    by (simp add: push_literal_def create_literal_buffer_gpu [OF assms(1)])
qed

lemma marshal_input_Inr:
  assumes "marshal_input executor device_type e st = Inr st'"
  shows "length (m_col_buf_ptrs st') =
           length (m_col_buf_ptrs st) + (if e = OtherExpr then 0 else 1)"
    and "(\<forall>c. e \<noteq> ColumnVar c) \<or> \<not> m_element_count st <s 0 \<Longrightarrow>
           m_element_count st' = m_element_count st"
    and "m_device_allocator st \<noteq> None \<Longrightarrow> m_device_allocator st' \<noteq> None"
  using assms
  by (cases e; auto split: prod.splits if_splits dest: push_literal_Inr)+

lemma marshal_inputs_length:
  "marshal_inputs executor device_type xs st = Inr st' \<Longrightarrow>
     length (m_col_buf_ptrs st') =
       length (m_col_buf_ptrs st) + length (filter (\<lambda>e. e \<noteq> OtherExpr) xs)"
proof (induction xs arbitrary: st)
  case Nil
  then show ?case by simp
next
  case (Cons x xs)
  then obtain st1 where 1: "marshal_input executor device_type x st = Inr st1"
    and 2: "marshal_inputs executor device_type xs st1 = Inr st'"
    by (auto split: sum.splits)
  from marshal_input_Inr(1) [OF 1] Cons.IH [OF 2] show ?case
    by simp
qed

lemma marshal_inputs_element_count:
  assumes "marshal_inputs executor device_type xs st = Inr st'"
      and "(\<forall>c. ColumnVar c \<notin> set xs) \<or> \<not> m_element_count st <s 0"
  shows "m_element_count st' = m_element_count st"
  using assms
proof (induction xs arbitrary: st)
  case Nil
  then show ?case by simp
next
  case (Cons x xs)
  from Cons.prems(1) obtain st1 where 1: "marshal_input executor device_type x st = Inr st1"
    and 2: "marshal_inputs executor device_type xs st1 = Inr st'"
    by (auto split: sum.splits)
  from Cons.prems(2) have "(\<forall>c. x \<noteq> ColumnVar c) \<or> \<not> m_element_count st <s 0"
    by auto
  then have e: "m_element_count st1 = m_element_count st"
    by (rule marshal_input_Inr(2) [OF 1])
  with Cons.prems(2) have "(\<forall>c. ColumnVar c \<notin> set xs) \<or> \<not> m_element_count st1 <s 0"
    by auto
  from Cons.IH [OF 2 this] e show ?case by simp
qed

lemma marshal_inputs_constants:
  assumes "\<forall>e \<in> set xs. \<exists>ti d. e = Constant ti d \<and> supported_literal ti"
      and "device_type = GPU \<longrightarrow> m_device_allocator st \<noteq> None"
  shows "\<exists>st'. marshal_inputs executor device_type xs st = Inr st'"
  using assms
proof (induction xs arbitrary: st)
  case Nil
  then show ?case by simp
next
  case (Cons x xs)
  from Cons.prems(1) obtain ti d where x: "x = Constant ti d" and s: "supported_literal ti"
    by auto
  have p: "\<exists>st1. push_literal (l8 :: 8 word) device_type st = Inr st1"
    "\<exists>st1. push_literal (l16 :: 16 word) device_type st = Inr st1"
    "\<exists>st1. push_literal (l32 :: 32 word) device_type st = Inr st1"
    "\<exists>st1. push_literal (l64 :: 64 word) device_type st = Inr st1"
    for l8 l16 l32 l64
    by (rule push_literal_succeeds [OF _ Cons.prems(2)], simp)+
  have "\<exists>st1. marshal_input executor device_type x st = Inr st1"
    using s by (auto simp: x supported_literal_def p split: if_splits)
  then obtain st1 where 1: "marshal_input executor device_type x st = Inr st1" ..
  from marshal_input_Inr(3) [OF 1] Cons.prems(2)
  have "device_type = GPU \<longrightarrow> m_device_allocator st1 \<noteq> None" by auto
  with Cons.IH [of st1] Cons.prems(1) 1 show ?case by auto
qed

lemma initial_state_simps:
  "m_col_buf_ptrs (initial_state executor device_type) = []"
  "m_element_count (initial_state executor device_type) = - 1"
  "device_type = GPU \<longrightarrow> m_device_allocator (initial_state executor device_type) \<noteq> None"
  by (simp_all add: initial_state_def)

lemma minus_one_sless_zero: "(- 1 :: 64 word) <s 0"
  by (simp add: word_sless_alt)

lemma push_literal_slot:
  fixes literal :: "'a::len word"
  assumes "LENGTH('a) \<le> 64" and "device_type = GPU \<longrightarrow> m_device_allocator st \<noteq> None"
  shows "\<exists>st'. push_literal literal device_type st = Inr st'
           \<and> take (sizeof literal)
                (slot_of (last (m_col_buf_ptrs st')) (m_literals_owner st') (m_device_allocator st'))
              = object_bytes literal"
proof (cases device_type)
  case CPU
  then show ?thesis
    by (simp add: push_literal_def create_literal_buffer_cpu [OF assms(1)] slot_of_def
        length_object_bytes)
next
  case GPU
  with assms(2) obtain a where "m_device_allocator st = Some a" by auto
  with GPU show ?thesis
    by (simp add: push_literal_def create_literal_buffer_gpu [OF assms(1)] slot_of_def
        length_object_bytes)
qed

lemma marshal_constant_packs:
  assumes "supported_literal ti" and "device_type = GPU \<longrightarrow> m_device_allocator st \<noteq> None"
  shows "\<exists>st'. marshal_input executor device_type (Constant ti d) st = Inr st'
           \<and> take (get_bit_width ti div 8)
                (slot_of (last (m_col_buf_ptrs st')) (m_literals_owner st') (m_device_allocator st'))
              = (if is_fp ti
                 then (if get_bit_width ti = 32 then object_bytes (floatval d)
                       else object_bytes (doubleval d))
                 else if get_bit_width ti = 8 then object_bytes (tinyintval d)
                 else if get_bit_width ti = 16 then object_bytes (smallintval d)
                 else if get_bit_width ti = 32 then object_bytes (intval d)
                 else object_bytes (bigintval d))"
proof -
  have p: "\<exists>st'. push_literal (l8 :: 8 word) device_type st = Inr st'
           \<and> take (Suc 0)
                (slot_of (last (m_col_buf_ptrs st')) (m_literals_owner st') (m_device_allocator st'))
              = object_bytes l8"
    "\<exists>st'. push_literal (l16 :: 16 word) device_type st = Inr st'
           \<and> take 2
                (slot_of (last (m_col_buf_ptrs st')) (m_literals_owner st') (m_device_allocator st'))
              = object_bytes l16"
    "\<exists>st'. push_literal (l32 :: 32 word) device_type st = Inr st'
           \<and> take 4
                (slot_of (last (m_col_buf_ptrs st')) (m_literals_owner st') (m_device_allocator st'))
              = object_bytes l32"
    "\<exists>st'. push_literal (l64 :: 64 word) device_type st = Inr st'
           \<and> take 8
                (slot_of (last (m_col_buf_ptrs st')) (m_literals_owner st') (m_device_allocator st'))
              = object_bytes l64"
    for l8 l16 l32 l64
    using push_literal_slot [OF _ assms(2), of l8] push_literal_slot [OF _ assms(2), of l16]
      push_literal_slot [OF _ assms(2), of l32] push_literal_slot [OF _ assms(2), of l64]
    by (simp_all add: sizeof_def)
  from assms(1) show ?thesis
    by (auto simp: supported_literal_def p split: if_splits)
qed

lemma execute_marshal_error:
  "marshal_inputs executor device_type (input_exprs exe_unit)
       (initial_state executor device_type) = Inl e \<Longrightarrow>
     execute have_cuda executor exe_unit (Some ctx) device_type = ([], Inl e)"
  by (simp add: execute_def)

text \<open>What \<^verbatim>\<open>execute\<close> returns once the inputs are marshaled is what the launcher returns.\<close>

lemma execute_launch:
  assumes "marshal_inputs executor device_type (input_exprs exe_unit)
             (initial_state executor device_type) = Inr st"
      and "length (m_col_buf_ptrs st) = length (input_exprs exe_unit)"
      and "\<not> m_element_count st <s 0"
  shows "m_col_buf_ptrs st \<noteq> []"
    and "execute have_cuda executor exe_unit (Some ctx) device_type =
           (case device_type of
              CPU \<Rightarrow> launchCpuCode executor exe_unit ctx (m_col_buf_ptrs st) (m_element_count st)
            | GPU \<Rightarrow> launchGpuCode have_cuda executor exe_unit ctx (m_col_buf_ptrs st)
                       (m_element_count st))"
proof -
  have "\<exists>c. ColumnVar c \<in> set (input_exprs exe_unit)"
  proof (rule ccontr)
    assume "\<not> (\<exists>c. ColumnVar c \<in> set (input_exprs exe_unit))"
    with marshal_inputs_element_count [OF assms(1)]
    have "m_element_count st <s 0"
      by (simp add: initial_state_simps minus_one_sless_zero)
    with assms(3) show False by simp
  qed
  then have "input_exprs exe_unit \<noteq> []" by auto
  with assms(2) show "m_col_buf_ptrs st \<noteq> []" by auto
  from assms show "execute have_cuda executor exe_unit (Some ctx) device_type =
           (case device_type of
              CPU \<Rightarrow> launchCpuCode executor exe_unit ctx (m_col_buf_ptrs st) (m_element_count st)
            | GPU \<Rightarrow> launchGpuCode have_cuda executor exe_unit ctx (m_col_buf_ptrs st)
                       (m_element_count st))"
    by (simp add: execute_def)
qed

lemma execute_result:
  assumes "execute have_cuda executor exe_unit compilation_context device_type = (evs, Inr rs)"
  shows "\<exists>ctx st. compilation_context = Some ctx
           \<and> marshal_inputs executor device_type (input_exprs exe_unit)
                (initial_state executor device_type) = Inr st
           \<and> (case device_type of
                 CPU \<Rightarrow> launchCpuCode executor exe_unit ctx (m_col_buf_ptrs st) (m_element_count st)
               | GPU \<Rightarrow> launchGpuCode have_cuda executor exe_unit ctx (m_col_buf_ptrs st)
                          (m_element_count st)) = (evs, Inr rs)"
proof -
  from assms obtain ctx where c: "compilation_context = Some ctx"
    by (cases compilation_context) (simp_all add: execute_def)
  from assms c obtain st where
    m: "marshal_inputs executor device_type (input_exprs exe_unit)
          (initial_state executor device_type) = Inr st"
    by (cases "marshal_inputs executor device_type (input_exprs exe_unit)
          (initial_state executor device_type)") (simp_all add: execute_def)
  from assms c m have l: "length (m_col_buf_ptrs st) = length (input_exprs exe_unit)"
    by (cases "length (m_col_buf_ptrs st) = length (input_exprs exe_unit)")
       (simp_all add: execute_def)
  from assms c m l have e: "\<not> m_element_count st <s 0"
    by (cases "m_element_count st <s 0") (simp_all add: execute_def)
  from assms c execute_launch(2) [OF m l e, of have_cuda ctx] m show ?thesis
    by simp
qed

lemma execute_fails_in_marshaling:
  assumes "\<And>st. marshal_inputs executor device_type (input_exprs exe_unit)
                   (initial_state executor device_type) = Inr st \<Longrightarrow>
             length (m_col_buf_ptrs st) \<noteq> length (input_exprs exe_unit)
             \<or> m_element_count st <s 0"
  shows "fst (execute have_cuda executor exe_unit compilation_context device_type) = []
       \<and> isl (snd (execute have_cuda executor exe_unit compilation_context device_type))"
proof (cases compilation_context)
  case None
  then show ?thesis by (simp add: execute_def)
next
  case (Some ctx)
  show ?thesis
  proof (cases "marshal_inputs executor device_type (input_exprs exe_unit)
                  (initial_state executor device_type)")
    case (Inl e)
    with Some show ?thesis by (simp add: execute_def)
  next
    case (Inr st)
    from assms [OF Inr] Some Inr show ?thesis
      by (auto simp: execute_def)
  qed
qed

lemma marshal_differing_column:
  assumes "\<forall>c. ColumnVar c \<notin> set pre"
      and "\<not> snd (getOneColumnFragment executor c1 device_type) <s 0"
      and "snd (getOneColumnFragment executor c2 device_type)
             \<noteq> snd (getOneColumnFragment executor c1 device_type)"
      and "marshal_inputs executor device_type (pre @ ColumnVar c1 # mid)
             (initial_state executor device_type) = Inr st"
  shows "marshal_inputs executor device_type (pre @ ColumnVar c1 # mid @ ColumnVar c2 # post)
           (initial_state executor device_type) = Inl InconsistentInputCardinality"
proof -
  let ?init = "initial_state executor device_type"
  let ?n1 = "snd (getOneColumnFragment executor c1 device_type)"
  from assms(4) obtain st0 where
    0: "marshal_inputs executor device_type pre ?init = Inr st0" and
    1: "marshal_inputs executor device_type (ColumnVar c1 # mid) st0 = Inr st"
    by (auto simp: marshal_inputs_append split: sum.splits)
  from marshal_inputs_element_count [OF 0] assms(1)
  have e0: "m_element_count st0 <s 0"
    by (simp add: initial_state_simps minus_one_sless_zero)
  from 1 obtain st1 where
    2: "marshal_input executor device_type (ColumnVar c1) st0 = Inr st1" and
    3: "marshal_inputs executor device_type mid st1 = Inr st"
    by (auto split: sum.splits)
  from 2 e0 have e1: "m_element_count st1 = ?n1"
    by (auto split: prod.splits)
  with assms(2) have "\<not> m_element_count st1 <s 0" by simp
  with marshal_inputs_element_count [OF 3] e1 have e: "m_element_count st = ?n1"
    by simp
  with assms(2,3)
  have "marshal_input executor device_type (ColumnVar c2) st = Inl InconsistentInputCardinality"
    by (auto split: prod.splits)
  then have "marshal_inputs executor device_type (ColumnVar c2 # post) st
      = Inl InconsistentInputCardinality"
    by simp
  with assms(4)
  have "marshal_inputs executor device_type ((pre @ ColumnVar c1 # mid) @ ColumnVar c2 # post) ?init
      = Inl InconsistentInputCardinality"
    by (simp only: marshal_inputs_append sum.case)
  then show ?thesis by simp
qed

text \<open>
  Claim C4, as amended. Let \<open>c1\<close> be the first column among the inputs, with an element count
  that is not negative as \<^verbatim>\<open>ssize_t\<close>, and \<open>c2\<close> a later column whose fetched element count
  differs. Then the invocation fails, and nothing has been allocated for the output or
  launched. If the inputs before \<open>c2\<close> marshal without error, the failure is
  \<open>InconsistentInputCardinality\<close>.
\<close>

theorem C4_inconsistent_cardinality:
  assumes "input_exprs exe_unit = pre @ ColumnVar c1 # mid @ ColumnVar c2 # post"
      and "\<forall>c. ColumnVar c \<notin> set pre"
      and "\<not> snd (getOneColumnFragment executor c1 device_type) <s 0"
      and "snd (getOneColumnFragment executor c2 device_type)
             \<noteq> snd (getOneColumnFragment executor c1 device_type)"
  shows "fst (execute have_cuda executor exe_unit compilation_context device_type) = []
       \<and> isl (snd (execute have_cuda executor exe_unit compilation_context device_type))
       \<and> (marshal_inputs executor device_type (pre @ ColumnVar c1 # mid)
             (initial_state executor device_type) = Inr st \<longrightarrow>
            execute have_cuda executor exe_unit (Some ctx) device_type
              = ([], Inl InconsistentInputCardinality))"
proof -
  let ?init = "initial_state executor device_type"
  let ?before = "marshal_inputs executor device_type (pre @ ColumnVar c1 # mid) ?init"
  have never: "marshal_inputs executor device_type (input_exprs exe_unit) ?init \<noteq> Inr st'" for st'
  proof (cases ?before)
    case (Inl e)
    then have "marshal_inputs executor device_type
        ((pre @ ColumnVar c1 # mid) @ ColumnVar c2 # post) ?init = Inl e"
      by (simp only: marshal_inputs_append sum.case)
    with assms(1) show ?thesis by simp
  next
    case (Inr s)
    from marshal_differing_column [OF assms(2-4) Inr] assms(1) show ?thesis by simp
  qed
  have a: "fst (execute have_cuda executor exe_unit compilation_context device_type) = []
       \<and> isl (snd (execute have_cuda executor exe_unit compilation_context device_type))"
    by (rule execute_fails_in_marshaling) (simp add: never)
  have b: "execute have_cuda executor exe_unit (Some ctx) device_type
              = ([], Inl InconsistentInputCardinality)" if s: "?before = Inr st"
    using marshal_differing_column [OF assms(2-4) s] assms(1)
    by (simp add: execute_marshal_error)
  from a b show ?thesis by blast
qed

text \<open>A column of four elements, an integer literal and a column of three elements.\<close>

theorem C4_inconsistent_cardinality_witness:
  "execute False demo_executor (unit_with [ColumnVar 0, int_literal 5, ColumnVar 1] True 2)
     (Some (reporting 4)) CPU = ([], Inl InconsistentInputCardinality)"
proof -
  have a: "input_exprs (unit_with [ColumnVar 0, int_literal 5, ColumnVar 1] True 2)
      = [] @ ColumnVar 0 # [int_literal 5] @ ColumnVar 1 # []"
    by (simp add: unit_with_def)
  have b: "\<forall>c. ColumnVar c \<notin> set []" by simp
  have r: "replicate 4 (0 :: byte) = [0, 0, 0, 0]"
    by (simp add: numeral_eq_Suc)
  have c: "marshal_inputs demo_executor CPU ([] @ ColumnVar 0 # [int_literal 5])
      (initial_state demo_executor CPU)
      = Inr \<lparr>m_col_buf_ptrs = [ChunkPtr 0, LiteralPtr 0], m_element_count = 4,
             m_literals_owner = [[5, 0, 0, 0, 0, 0, 0, 0]], m_device_allocator = None\<rparr>"
    by (simp add: initial_state_def demo_executor_def int_literal_def push_literal_def
        create_literal_buffer_def sizeof_def object_bytes_def memcpy_def upt_rec
        word_sless_alt r)
  have d: "\<not> snd (getOneColumnFragment demo_executor 0 CPU) <s 0"
    by (simp add: demo_executor_def word_sless_alt)
  have e: "snd (getOneColumnFragment demo_executor 1 CPU)
      \<noteq> snd (getOneColumnFragment demo_executor 0 CPU)"
    by (simp add: demo_executor_def)
  from C4_inconsistent_cardinality [OF a b d e] c show ?thesis by blast
qed

text \<open>
  Claim C4 as stated fails: with a text literal between two columns of four and three
  elements the invocation fails with \<open>UnsupportedLiteralType\<close>; the second column is never
  reached. And \<^verbatim>\<open>element_count < 0\<close> is also the test for "no column yet": after a first
  column of \<open>2 ^ 63\<close> elements, a second column of three elements sets the count again and the
  invocation returns a result.
\<close>

theorem C4_counterexample:
  "snd (getOneColumnFragment demo_executor 0 CPU) \<noteq> snd (getOneColumnFragment demo_executor 1 CPU)
   \<and> execute False demo_executor (unit_with [ColumnVar 0, text_literal, ColumnVar 1] True 2)
       (Some (reporting 4)) CPU = ([], Inl UnsupportedLiteralType)
   \<and> execute False
       (demo_executor\<lparr>getOneColumnFragment :=
          (\<lambda>col_var device_type.
             (ChunkPtr col_var, if col_var = 0 then 9223372036854775808 else 3))\<rparr>)
       (unit_with [ColumnVar 0, ColumnVar 1] True 2) (Some (reporting 4)) CPU
       = ([OutputStorageAlloc CPU 6, FuncCall],
          Inr \<lparr>storage_entry_count = 4, allocated_row_count = 6, col_slot_info = [(8, 8)]\<rparr>)"
  by (simp add: execute_def initial_state_def demo_executor_def text_literal_def unit_with_def
      word_sless_alt launchCpuCode_def get_output_row_count_def deref_def reporting_def)

text \<open>
  Claim C8, as amended. Without a column among the inputs the invocation fails, and it does so
  before anything is allocated for the output or launched. The error is \<open>NoColumnInputs\<close>
  when a compilation context is given and every input is a constant of a supported type.
\<close>

theorem C8_no_column_inputs:
  assumes "\<forall>c. ColumnVar c \<notin> set (input_exprs exe_unit)"
  shows "fst (execute have_cuda executor exe_unit compilation_context device_type) = []
       \<and> isl (snd (execute have_cuda executor exe_unit compilation_context device_type))
       \<and> ((\<forall>e \<in> set (input_exprs exe_unit). \<exists>ti d. e = Constant ti d \<and> supported_literal ti) \<longrightarrow>
            execute have_cuda executor exe_unit (Some ctx) device_type = ([], Inl NoColumnInputs))"
proof -
  let ?init = "initial_state executor device_type"
  let ?m = "marshal_inputs executor device_type (input_exprs exe_unit) ?init"
  have neg: "m_element_count st <s 0" if "?m = Inr st" for st
    using marshal_inputs_element_count [OF that] assms
    by (simp add: initial_state_simps minus_one_sless_zero)
  have 1: "fst (execute have_cuda executor exe_unit compilation_context device_type) = []
       \<and> isl (snd (execute have_cuda executor exe_unit compilation_context device_type))"
    by (cases compilation_context; cases ?m) (simp_all add: execute_def neg)
  have 2: "execute have_cuda executor exe_unit (Some ctx) device_type = ([], Inl NoColumnInputs)"
    if s: "\<forall>e \<in> set (input_exprs exe_unit). \<exists>ti d. e = Constant ti d \<and> supported_literal ti"
  proof -
    from marshal_inputs_constants [OF s initial_state_simps(3)]
    obtain st where st: "?m = Inr st" by blast
    from s have "filter (\<lambda>e. e \<noteq> OtherExpr) (input_exprs exe_unit) = input_exprs exe_unit"
      by (auto simp: filter_id_conv)
    with marshal_inputs_length [OF st]
    have "length (m_col_buf_ptrs st) = length (input_exprs exe_unit)"
      by (simp add: initial_state_simps)
    with st neg [OF st] show ?thesis
      by (simp add: execute_def)
  qed
  from 1 2 show ?thesis by blast
qed

text \<open>A single integer literal as input.\<close>

theorem C8_no_column_inputs_witness:
  "execute False demo_executor (unit_with [int_literal 5] True 2) (Some (reporting 4)) CPU
     = ([], Inl NoColumnInputs)"
proof -
  have a: "\<forall>c. ColumnVar c \<notin> set (input_exprs (unit_with [int_literal 5] True 2))"
    by (simp add: unit_with_def int_literal_def)
  have b: "\<forall>e \<in> set (input_exprs (unit_with [int_literal 5] True 2)).
             \<exists>ti d. e = Constant ti d \<and> supported_literal ti"
    by (simp add: unit_with_def int_literal_def supported_literal_def)
  from C8_no_column_inputs [OF a, where ctx = "reporting 4" and have_cuda = False
      and executor = demo_executor and device_type = CPU] b
  show ?thesis by blast
qed

text \<open>
  Claim C8 as stated fails: an input that is neither a column nor a constant fails the buffer
  count check, which comes before the element count check, and a text literal fails with
  \<open>UnsupportedLiteralType\<close> inside the loop.
\<close>

theorem C8_counterexample:
  "execute False demo_executor (unit_with [OtherExpr] True 2) (Some (reporting 4)) CPU
     = ([], Inl BufferCountMismatch)
   \<and> execute False demo_executor (unit_with [text_literal] True 2) (Some (reporting 4)) CPU
     = ([], Inl UnsupportedLiteralType)"
  by (simp add: execute_def initial_state_def text_literal_def unit_with_def)

text \<open>
  Claim C10, as amended. The loop passes over an expression that is neither a column nor a
  constant: no buffer is appended and no error is raised. An invocation whose inputs contain
  such an expression fails, and nothing has been allocated for the output or launched. If the
  loop completes, fewer buffers than inputs have been marshaled and the invocation aborts on
  the buffer count check.
\<close>

theorem C10_other_expression:
  assumes "OtherExpr \<in> set (input_exprs exe_unit)"
  shows "marshal_input executor device_type OtherExpr st0 = Inr st0
       \<and> fst (execute have_cuda executor exe_unit compilation_context device_type) = []
       \<and> isl (snd (execute have_cuda executor exe_unit compilation_context device_type))
       \<and> (marshal_inputs executor device_type (input_exprs exe_unit)
             (initial_state executor device_type) = Inr st \<longrightarrow>
            length (m_col_buf_ptrs st) < length (input_exprs exe_unit)
            \<and> execute have_cuda executor exe_unit (Some ctx) device_type
                = ([], Inl BufferCountMismatch))"
proof -
  from assms
  have f: "length (filter (\<lambda>e. e \<noteq> OtherExpr) (input_exprs exe_unit))
      < length (input_exprs exe_unit)"
    by (auto intro: length_filter_less)
  have l: "length (m_col_buf_ptrs s) < length (input_exprs exe_unit)"
    if "marshal_inputs executor device_type (input_exprs exe_unit)
          (initial_state executor device_type) = Inr s" for s
    using marshal_inputs_length [OF that] f by (simp add: initial_state_simps)
  have a: "fst (execute have_cuda executor exe_unit compilation_context device_type) = []
       \<and> isl (snd (execute have_cuda executor exe_unit compilation_context device_type))"
    by (rule execute_fails_in_marshaling) (use l in fastforce)
  have b: "length (m_col_buf_ptrs st) < length (input_exprs exe_unit)
            \<and> execute have_cuda executor exe_unit (Some ctx) device_type
                = ([], Inl BufferCountMismatch)"
    if s: "marshal_inputs executor device_type (input_exprs exe_unit)
          (initial_state executor device_type) = Inr st"
    using l [OF s] s by (simp add: execute_def)
  from a b show ?thesis by simp
qed

text \<open>A column followed by an expression that is neither a column nor a constant.\<close>

theorem C10_other_expression_witness:
  "execute False demo_executor (unit_with [ColumnVar 0, OtherExpr] True 2)
     (Some (reporting 4)) CPU = ([], Inl BufferCountMismatch)"
proof -
  have a: "OtherExpr \<in> set (input_exprs (unit_with [ColumnVar 0, OtherExpr] True 2))"
    by (simp add: unit_with_def)
  have b: "marshal_inputs demo_executor CPU
      (input_exprs (unit_with [ColumnVar 0, OtherExpr] True 2)) (initial_state demo_executor CPU)
      = Inr \<lparr>m_col_buf_ptrs = [ChunkPtr 0], m_element_count = 4, m_literals_owner = [],
             m_device_allocator = None\<rparr>"
    by (simp add: unit_with_def initial_state_def demo_executor_def word_sless_alt)
  from C10_other_expression [OF a] b show ?thesis by blast
qed

text \<open>
  Claim C10 as stated fails: when a text literal follows such an expression, the invocation
  fails with \<open>UnsupportedLiteralType\<close>, not on the buffer count check.
\<close>

theorem C10_counterexample:
  "execute False demo_executor (unit_with [OtherExpr, text_literal] True 2)
     (Some (reporting 4)) CPU = ([], Inl UnsupportedLiteralType)"
  by (simp add: execute_def initial_state_def text_literal_def unit_with_def)

subsection \<open>A multiplier of zero\<close>

lemma launchCpuCode_zero_multiplier:
  assumes "payload (output_buffer_multiplier exe_unit) = 0" and "col_buf_ptrs \<noteq> []"
  shows "launchCpuCode executor exe_unit ctx col_buf_ptrs n = ([], Inl UnsupportedOutputPolicy)"
  using assms by (simp add: launchCpuCode_def get_output_row_count_zero)

lemma launchGpuCode_zero_multiplier:
  assumes "payload (output_buffer_multiplier exe_unit) = 0"
  shows "launchGpuCode have_cuda executor exe_unit ctx col_buf_ptrs n =
           (if have_cuda
            then ([DeviceAlloc (length col_buf_ptrs * 8), DeviceAlloc 8, DeviceAlloc 4],
                  Inl UnsupportedOutputPolicy)
            else ([], Inl Unreachable))"
  using assms by (simp add: launchGpuCode_def get_output_row_count_zero)

text \<open>
  Claim C9, as amended. For a multiplier that is present and zero the sizing raises the
  unsupported output policy error; it does so on account of the value it reads, since the same
  unit with the presence flag cleared is rejected in the same way. Hence an invocation with
  such a multiplier never returns a result and never allocates output storage. The error of
  the invocation is the unsupported output policy error whenever the invocation reaches the
  sizing: a compilation context is given, the inputs marshal without error, one buffer per
  input, with an element count that is not negative, and on the GPU the build has \<^verbatim>\<open>HAVE_CUDA\<close>.
\<close>

theorem C9_zero_multiplier_rejected:
  assumes "has_value (output_buffer_multiplier exe_unit)"
      and "payload (output_buffer_multiplier exe_unit) = 0"
  shows "get_output_row_count exe_unit n = Inl UnsupportedOutputPolicy
       \<and> get_output_row_count
            (exe_unit\<lparr>output_buffer_multiplier :=
               (output_buffer_multiplier exe_unit)\<lparr>has_value := False\<rparr>\<rparr>) n
          = Inl UnsupportedOutputPolicy
       \<and> isl (snd (execute have_cuda executor exe_unit compilation_context device_type))
       \<and> allocated_rows (fst (execute have_cuda executor exe_unit compilation_context device_type))
           = []
       \<and> (marshal_inputs executor device_type (input_exprs exe_unit)
             (initial_state executor device_type) = Inr st
           \<and> length (m_col_buf_ptrs st) = length (input_exprs exe_unit)
           \<and> \<not> m_element_count st <s 0
           \<and> (device_type = GPU \<longrightarrow> have_cuda) \<longrightarrow>
            snd (execute have_cuda executor exe_unit (Some ctx) device_type)
              = Inl UnsupportedOutputPolicy)"
proof -
  let ?m = "marshal_inputs executor device_type (input_exprs exe_unit)
              (initial_state executor device_type)"
  have launched: "execute have_cuda executor exe_unit (Some c) device_type =
      (case device_type of
         CPU \<Rightarrow> ([], Inl UnsupportedOutputPolicy)
       | GPU \<Rightarrow> (if have_cuda
                 then ([DeviceAlloc (length (m_col_buf_ptrs s) * 8), DeviceAlloc 8, DeviceAlloc 4],
                       Inl UnsupportedOutputPolicy)
                 else ([], Inl Unreachable)))"
    if m: "?m = Inr s" and l: "length (m_col_buf_ptrs s) = length (input_exprs exe_unit)"
      and e: "\<not> m_element_count s <s 0" for c s
    using execute_launch(2) [OF m l e, where have_cuda = have_cuda and ctx = c]
    by (cases device_type)
       (simp_all add: launchCpuCode_zero_multiplier [OF assms(2) execute_launch(1) [OF m l e]]
          launchGpuCode_zero_multiplier [OF assms(2)])
  have g: "get_output_row_count exe_unit n = Inl UnsupportedOutputPolicy"
    using assms(2) by (rule get_output_row_count_zero)
  have a: "get_output_row_count
            (exe_unit\<lparr>output_buffer_multiplier :=
               (output_buffer_multiplier exe_unit)\<lparr>has_value := False\<rparr>\<rparr>) n
          = Inl UnsupportedOutputPolicy"
    using assms(2) by (simp add: get_output_row_count_def deref_def)
  have f: "isl (snd (execute have_cuda executor exe_unit compilation_context device_type))
       \<and> allocated_rows (fst (execute have_cuda executor exe_unit compilation_context device_type))
           = []"
  proof (cases compilation_context)
    case None
    then show ?thesis by (simp add: execute_def)
  next
    case (Some c)
    show ?thesis
    proof (cases ?m)
      case (Inl err)
      with Some show ?thesis by (simp add: execute_def)
    next
      case (Inr s)
      show ?thesis
      proof (cases "length (m_col_buf_ptrs s) = length (input_exprs exe_unit)
                    \<and> \<not> m_element_count s <s 0")
        case True
        with launched [OF Inr, of c] Some show ?thesis
          by (cases device_type) simp_all
      next
        case False
        with Some Inr show ?thesis by (auto simp: execute_def)
      qed
    qed
  qed
  have r: "snd (execute have_cuda executor exe_unit (Some ctx) device_type)
              = Inl UnsupportedOutputPolicy"
    if "?m = Inr st" "length (m_col_buf_ptrs st) = length (input_exprs exe_unit)"
      "\<not> m_element_count st <s 0" "device_type = GPU \<longrightarrow> have_cuda"
    using launched [OF that(1-3), of ctx] that(4)
    by (cases device_type) simp_all
  from g a f r show ?thesis by blast
qed

text \<open>A multiplier that is present and zero, on a column of four elements, on the CPU.\<close>

theorem C9_zero_multiplier_rejected_witness:
  "has_value (output_buffer_multiplier (unit_with [ColumnVar 0] True 0))
   \<and> payload (output_buffer_multiplier (unit_with [ColumnVar 0] True 0)) = 0
   \<and> marshal_inputs demo_executor CPU (input_exprs (unit_with [ColumnVar 0] True 0))
        (initial_state demo_executor CPU)
       = Inr \<lparr>m_col_buf_ptrs = [ChunkPtr 0], m_element_count = 4, m_literals_owner = [],
              m_device_allocator = None\<rparr>
   \<and> snd (execute False demo_executor (unit_with [ColumnVar 0] True 0) (Some (reporting 4)) CPU)
       = Inl UnsupportedOutputPolicy
   \<and> allocated_rows
        (fst (execute False demo_executor (unit_with [ColumnVar 0] True 0) (Some (reporting 4)) CPU))
       = []"
proof -
  have h: "has_value (output_buffer_multiplier (unit_with [ColumnVar 0] True 0))"
    "payload (output_buffer_multiplier (unit_with [ColumnVar 0] True 0)) = 0"
    by (simp_all add: unit_with_def)
  have m: "marshal_inputs demo_executor CPU (input_exprs (unit_with [ColumnVar 0] True 0))
        (initial_state demo_executor CPU)
       = Inr \<lparr>m_col_buf_ptrs = [ChunkPtr 0], m_element_count = 4, m_literals_owner = [],
              m_device_allocator = None\<rparr>"
    by (simp add: unit_with_def initial_state_def demo_executor_def word_sless_alt)
  have e: "\<not> (4 :: ssize_t) <s 0"
    by (simp add: word_sless_alt)
  from C9_zero_multiplier_rejected [OF h, where executor = demo_executor and device_type = CPU
      and have_cuda = False and compilation_context = "Some (reporting 4)" and ctx = "reporting 4"
      and st = "\<lparr>m_col_buf_ptrs = [ChunkPtr 0], m_element_count = 4, m_literals_owner = [],
              m_device_allocator = None\<rparr>"]
    h m e
  show ?thesis by (simp add: unit_with_def)
qed

text \<open>
  Claim C9 as stated fails: with a multiplier that is present and zero, an invocation whose
  only input is an integer literal fails with \<open>NoColumnInputs\<close>, one with a text literal after
  a column fails with \<open>UnsupportedLiteralType\<close>, one on the GPU in a build without \<^verbatim>\<open>HAVE_CUDA\<close>
  is unreachable code, and one without a compilation context fails that check. None of them
  reaches the sizing.
\<close>

theorem C9_counterexample:
  "execute False demo_executor (unit_with [int_literal 5] True 0) (Some (reporting 4)) CPU
     = ([], Inl NoColumnInputs)
   \<and> execute False demo_executor (unit_with [ColumnVar 0, text_literal] True 0)
       (Some (reporting 4)) CPU = ([], Inl UnsupportedLiteralType)
   \<and> execute False demo_executor (unit_with [ColumnVar 0] True 0) (Some (reporting 4)) GPU
     = ([], Inl Unreachable)
   \<and> execute False demo_executor (unit_with [ColumnVar 0] True 0) None CPU
     = ([], Inl (CheckFailed CompilationContext))"
proof -
  have r: "replicate 4 (0 :: byte) = [0, 0, 0, 0]"
    by (simp add: numeral_eq_Suc)
  have 1: "execute False demo_executor (unit_with [int_literal 5] True 0) (Some (reporting 4)) CPU
     = ([], Inl NoColumnInputs)"
    by (simp add: execute_def initial_state_def int_literal_def unit_with_def push_literal_def
        create_literal_buffer_def sizeof_def object_bytes_def memcpy_def upt_rec word_sless_alt r)
  have 2: "execute False demo_executor (unit_with [ColumnVar 0, text_literal] True 0)
       (Some (reporting 4)) CPU = ([], Inl UnsupportedLiteralType)"
    by (simp add: execute_def initial_state_def demo_executor_def text_literal_def unit_with_def
        word_sless_alt)
  have 3: "execute False demo_executor (unit_with [ColumnVar 0] True 0) (Some (reporting 4)) GPU
     = ([], Inl Unreachable)"
    by (simp add: execute_def initial_state_def demo_executor_def unit_with_def
        word_sless_alt launchGpuCode_def)
  have 4: "execute False demo_executor (unit_with [ColumnVar 0] True 0) None CPU
     = ([], Inl (CheckFailed CompilationContext))"
    by (simp add: execute_def)
  from 1 2 3 4 show ?thesis by simp
qed

end
